theory Spec2Isabelle
  imports Main "HOL-Library.AList"
begin

section \<open>JavaScript values\<close>

text \<open>
  The values that travel between the pages, the API client and the backend are JSON
  documents, read by the pages with JavaScript's property access and truthiness tests.
  \<open>JUndefined\<close> is what reading a missing property gives. Numbers are restricted to
  the integers of magnitude up to \<open>2^53\<close>, each of them a number of the platform: the
  code tests a number against zero and turns it into a string, no more. Strings are
  lists of code units of the 8-bit range. An object lists its own properties; of two entries
  with one key the first is the property.
\<close>

datatype jsval =
    JUndefined
  | JNull
  | JBool bool
  | JNum int
  | JStr string
  | JArr "jsval list"
  | JObj "(string \<times> jsval) list"

text \<open>ToBoolean, as applied by \<^verbatim>\<open>if (x)\<close>, \<^verbatim>\<open>!x\<close> and \<^verbatim>\<open>x && y\<close>.\<close>

fun truthy :: "jsval \<Rightarrow> bool" where
  "truthy JUndefined = False"
| "truthy JNull = False"
| "truthy (JBool b) = b"
| "truthy (JNum n) = (n \<noteq> 0)"
| "truthy (JStr s) = (s \<noteq> [])"
| "truthy (JArr xs) = True"
| "truthy (JObj kvs) = True"

datatype js_error =
    AxiosError "(nat \<times> jsval) option"
  | TypeError
  | SyntaxError

text \<open>
  Reading a data property \<^verbatim>\<open>v.k\<close>, for the keys \<^verbatim>\<open>answer\<close>,
  \<^verbatim>\<open>source_documents\<close> and \<^verbatim>\<open>content\<close> that the detail page reads from a
  query result: none of them is a built-in property of a string, an array or
  \<^verbatim>\<open>Object.prototype\<close>. On \<^verbatim>\<open>null\<close> and \<^verbatim>\<open>undefined\<close> it throws.
\<close>

fun get_prop :: "jsval \<Rightarrow> string \<Rightarrow> js_error + jsval" where
  "get_prop JUndefined k = Inl TypeError"
| "get_prop JNull k = Inl TypeError"
| "get_prop (JObj kvs) k = (case map_of kvs k of None \<Rightarrow> Inr JUndefined | Some v \<Rightarrow> Inr v)"
| "get_prop v k = Inr JUndefined"

text \<open>The decimal digits of a natural number.\<close>

fun decimal :: "nat \<Rightarrow> string" where
  "decimal n =
     (if n < 10 then [''0123456789'' ! n]
      else decimal (n div 10) @ [''0123456789'' ! (n mod 10)])"

declare decimal.simps [simp del]

text \<open>
  The conversion to a string that \<^verbatim>\<open>FormData.append\<close> applies to a value that is
  not a file. An array joins its elements with commas, \<^verbatim>\<open>null\<close> and
  \<^verbatim>\<open>undefined\<close> among them as the empty string. An object gives
  \<^verbatim>\<open>[object Object]\<close> through the method \<^verbatim>\<open>toString\<close> it inherits; a property
  \<^verbatim>\<open>toString\<close> of its own hides that method, is data and cannot be called, and the
  conversion throws.
\<close>

fun ToString :: "jsval \<Rightarrow> js_error + string"
  and join_elements :: "jsval list \<Rightarrow> js_error + string" where
  "ToString JUndefined = Inr ''undefined''"
| "ToString JNull = Inr ''null''"
| "ToString (JBool b) = Inr (if b then ''true'' else ''false'')"
| "ToString (JNum n) = Inr (if n < 0 then ''-'' @ decimal (nat (- n)) else decimal (nat n))"
| "ToString (JStr s) = Inr s"
| "ToString (JArr xs) = join_elements xs"
| "ToString (JObj kvs) =
     (if map_of kvs ''toString'' = None then Inr ''[object Object]'' else Inl TypeError)"
| "join_elements [] = Inr []"
| "join_elements (x # xs) =
     (case (if x = JUndefined \<or> x = JNull then Inr [] else ToString x) of
        Inl err \<Rightarrow> Inl err
      | Inr s \<Rightarrow>
          if xs = [] then Inr s
          else (case join_elements xs of Inl err \<Rightarrow> Inl err | Inr t \<Rightarrow> Inr (s @ '','' @ t)))"

text \<open>\<^verbatim>\<open>String.prototype.trim\<close>: white space and line terminators of the 8-bit range.\<close>

definition isWhiteSpace :: "char \<Rightarrow> bool" where
  "isWhiteSpace c =
     (c \<in> set [CHR 0x09, CHR 0x0A, CHR 0x0B, CHR 0x0C, CHR 0x0D, CHR '' '', CHR 0xA0])"

definition trim :: "string \<Rightarrow> string" where
  "trim s = rev (dropWhile isWhiteSpace (rev (dropWhile isWhiteSpace s)))"

text \<open>
  \<^verbatim>\<open>JSON.parse\<close> is built into the platform. Its grammar is the parameter \<open>grammar\<close>
  (\<open>None\<close> for a text that is not JSON). What the model fixes is that a rejected text
  throws \<^verbatim>\<open>SyntaxError\<close>, and that a text without any character other than white
  space is rejected: a JSON text holds a value.
\<close>

definition JSON_parse :: "(string \<Rightarrow> jsval option) \<Rightarrow> string \<Rightarrow> js_error + jsval" where
  "JSON_parse grammar text =
     (if trim text = [] then Inl SyntaxError
      else case grammar text of None \<Rightarrow> Inl SyntaxError | Some v \<Rightarrow> Inr v)"

section \<open>Requests, the network and the browser\<close>

datatype js_file = File string string

text \<open>An entry of a form holds a file or a string.\<close>

datatype form_entry = FileEntry js_file | StringEntry string

datatype payload =
    NoData
  | JsonData jsval
  | URLSearchParams "(string \<times> string) list"
  | FormData "(string \<times> form_entry) list"

datatype http_method = GET | POST | PUT | DELETE

text \<open>
  A request config as it leaves the request interceptors, with the headers that api.js
  sets. What the library adds or drops by itself on the way to the network (an
  \<^verbatim>\<open>Accept\<close> header, the content type of a request without a body) is left out.
\<close>

record request =
  baseURL :: "string option"
  "method" :: http_method
  url :: string
  data :: payload
  headers :: "(string \<times> string) list"

text \<open>
  What the network gives back for a request: a response with a status and a body, or no
  response at all. The backend is the parameter \<open>net\<close> of every operation.
\<close>

datatype outcome = Response nat jsval | NoResponse

type_synonym network = "request \<Rightarrow> outcome"

text \<open>
  The browser state the client touches: \<^verbatim>\<open>localStorage\<close>, \<^verbatim>\<open>window.location.href\<close>,
  the value of the element \<^verbatim>\<open>#file-upload\<close> (\<open>None\<close> when the document has no such
  element), and two logs, oldest first: the requests handed to the network and the keys
  passed to \<^verbatim>\<open>localStorage.removeItem\<close>.
\<close>

record world =
  localStorage :: "string \<rightharpoonup> string"
  href :: string
  fileInput :: "string option"
  sent :: "request list"
  removeItem_calls :: "string list"

section \<open>services/api.js\<close>

text \<open>
  axios is a library. The model keeps what api.js relies on: a request is handed to the
  network once; a response whose status is in 200..299 resolves to the response; any
  other status rejects with an error whose \<^verbatim>\<open>response\<close> holds it; no response
  rejects with an error that has no \<^verbatim>\<open>response\<close>.
\<close>

definition axios_dispatch ::
  "network \<Rightarrow> world \<Rightarrow> request \<Rightarrow> (js_error + nat \<times> jsval) \<times> world" where
  "axios_dispatch net w config =
     (let w' = w\<lparr>sent := sent w @ [config]\<rparr> in
      case net config of
        Response st d \<Rightarrow>
          if 200 \<le> st \<and> st < 300 then (Inr (st, d), w')
          else (Inl (AxiosError (Some (st, d))), w')
      | NoResponse \<Rightarrow> (Inl (AxiosError None), w'))"

text \<open>Headers of a call override the defaults of the instance.\<close>

definition mergeHeaders ::
  "(string \<times> string) list \<Rightarrow> (string \<times> string) list \<Rightarrow> (string \<times> string) list" where
  "mergeHeaders defaults hs = fold (\<lambda>(k, v). AList.update k v) hs defaults"

text \<open>api.js 14-21: the request interceptor of the instance \<^verbatim>\<open>api\<close>.\<close>

definition request_interceptor :: "world \<Rightarrow> request \<Rightarrow> request" where
  "request_interceptor w config =
     (case localStorage w ''token'' of
        None \<Rightarrow> config
      | Some token \<Rightarrow>
          if token \<noteq> []
          then config\<lparr>headers := AList.update ''Authorization'' (''Bearer '' @ token) (headers config)\<rparr>
          else config)"

text \<open>api.js 32-39: the response interceptor for a rejected request; it rejects again
  with the same error.\<close>

definition response_rejected :: "world \<Rightarrow> js_error \<Rightarrow> js_error \<times> world" where
  "response_rejected w error =
     (case error of
        AxiosError (Some (st, d)) \<Rightarrow>
          if st = 401
          then (error, w\<lparr>localStorage := (localStorage w)(''token'' := None),
                         removeItem_calls := removeItem_calls w @ [''token''],
                         href := ''/login''\<rparr>)
          else (error, w)
      | _ \<Rightarrow> (error, w))"

text \<open>api.js 6-11: a call through the instance \<^verbatim>\<open>api\<close>.\<close>

definition api_request ::
  "string \<Rightarrow> network \<Rightarrow> world \<Rightarrow> http_method \<Rightarrow> string \<Rightarrow> payload \<Rightarrow> (string \<times> string) list
     \<Rightarrow> (js_error + nat \<times> jsval) \<times> world" where
  "api_request API_URL net w m u d hs =
     (let config = \<lparr>baseURL = Some API_URL, method = m, url = u, data = d,
                     headers = mergeHeaders [(''Content-Type'', ''application/json'')] hs\<rparr>
      in case axios_dispatch net w (request_interceptor w config) of
           (Inr response, w1) \<Rightarrow> (Inr response, w1)
         | (Inl error, w1) \<Rightarrow> (case response_rejected w1 error of (e, w2) \<Rightarrow> (Inl e, w2)))"

text \<open>\<^verbatim>\<open>return response.data\<close> inside \<^verbatim>\<open>try { ... } catch (error) { throw error }\<close>.\<close>

definition response_data :: "(js_error + nat \<times> jsval) \<times> world \<Rightarrow> (js_error + jsval) \<times> world" where
  "response_data rw =
     (case rw of (Inr (st, d), w) \<Rightarrow> (Inr d, w) | (Inl error, w) \<Rightarrow> (Inl error, w))"








definition deleteAgent ::
  "string \<Rightarrow> network \<Rightarrow> world \<Rightarrow> string \<Rightarrow> (js_error + jsval) \<times> world" where
  "deleteAgent API_URL net w agentId =
     (case api_request API_URL net w DELETE (''/agents/'' @ agentId) NoData [] of
        (Inr response, w1) \<Rightarrow> (Inr (JBool True), w1)
      | (Inl error, w1) \<Rightarrow> (Inl error, w1))"

text \<open>api.js 130-140: \<^verbatim>\<open>parameters = {}\<close> stands in for an argument left out.\<close>

definition queryAgent ::
  "string \<Rightarrow> network \<Rightarrow> world \<Rightarrow> string \<Rightarrow> string \<Rightarrow> jsval \<Rightarrow> (js_error + jsval) \<times> world" where
  "queryAgent API_URL net w agentId query parameters =
     response_data
       (api_request API_URL net w POST (''/agents/'' @ agentId @ ''/query'')
          (JsonData (JObj [(''query'', JStr query),
                           (''parameters'', if parameters = JUndefined then JObj [] else parameters)]))
          [])"

text \<open>
  api.js 142-160: \<^verbatim>\<open>collectionName = null\<close> stands in for an argument left out.
  \<^verbatim>\<open>formData.append\<close> turns the collection name into a string, and an exception
  of that conversion leaves the function before anything is sent.
\<close>

definition uploadDocument ::
  "string \<Rightarrow> network \<Rightarrow> world \<Rightarrow> string \<Rightarrow> js_file \<Rightarrow> jsval \<Rightarrow> (js_error + jsval) \<times> world" where
  "uploadDocument API_URL net w agentId file collectionName =
     (let collectionName = (if collectionName = JUndefined then JNull else collectionName)
      in case (if truthy collectionName
               then (case ToString collectionName of
                       Inl error \<Rightarrow> Inl error
                     | Inr text \<Rightarrow>
                         Inr [(''file'', FileEntry file), (''collection_name'', StringEntry text)])
               else Inr [(''file'', FileEntry file)]) of
           Inl error \<Rightarrow> (Inl error, w)
         | Inr formData \<Rightarrow>
             response_data
               (api_request API_URL net w POST (''/agents/'' @ agentId @ ''/upload'')
                  (FormData formData) [(''Content-Type'', ''multipart/form-data'')]))"




section \<open>The agent record\<close>

text \<open>
  Modelled from the spec: the shape of an agent record, which the backend (not part of
  the repository's sources) defines: id, name, type, an optional description, a config
  map and a creation time.
\<close>

record Agent =
  id :: string
  name :: string
  type :: string
  description :: "string option"
  config :: "(string \<times> jsval) list"
  created_at :: string

text \<open>\<^verbatim>\<open>agent.config.collection_name\<close>: a missing key reads as \<^verbatim>\<open>undefined\<close>.\<close>

definition collection_name :: "Agent \<Rightarrow> jsval" where
  "collection_name a =
     (case map_of (config a) ''collection_name'' of None \<Rightarrow> JUndefined | Some v \<Rightarrow> v)"

section \<open>pages/AgentDetailPage.js\<close>

text \<open>AgentDetailPage.js 10-22: the state of the page, one field for each \<^verbatim>\<open>useState\<close>.\<close>

record AgentDetailPage =
  agent :: "Agent option"
  loading :: bool
  error :: "string option"
  query :: string
  queryResult :: jsval
  queryLoading :: bool
  queryError :: "string option"
  "file" :: "js_file option"
  uploadResult :: jsval
  uploadLoading :: bool
  uploadError :: "string option"

definition initial_page :: AgentDetailPage where
  "initial_page =
     \<lparr>agent = None, loading = True, error = None,
      query = [], queryResult = JNull, queryLoading = False, queryError = None,
      file = None, uploadResult = JNull, uploadLoading = False, uploadError = None\<rparr>"

text \<open>
  AgentDetailPage.js 40-71. A handler is run from the submit event to the end of its
  \<^verbatim>\<open>finally\<close> block: the submit button is disabled while a query is loading.
  \<^verbatim>\<open>agent.type\<close> throws inside the \<^verbatim>\<open>try\<close> when no agent is loaded, and
  \<^verbatim>\<open>JSON.parse(query)\<close> is evaluated before \<^verbatim>\<open>queryAgent\<close> is called.
  Writes to the console are left out.
\<close>

definition handleQuerySubmit ::
  "(string \<Rightarrow> jsval option) \<Rightarrow> string \<Rightarrow> network \<Rightarrow> string \<Rightarrow> world \<times> AgentDetailPage
     \<Rightarrow> world \<times> AgentDetailPage" where
  "handleQuerySubmit grammar API_URL net agentId ws =
     (case ws of (w, s) \<Rightarrow>
        if trim (query s) = [] then (w, s)
        else
          let s1 = s\<lparr>queryLoading := True, queryResult := JNull, queryError := None\<rparr>;
              (result, w1) =
                (case agent s of
                   None \<Rightarrow> (Inl TypeError, w)
                 | Some a \<Rightarrow>
                     if type a = ''ml''
                     then (case JSON_parse grammar (query s) of
                             Inl err \<Rightarrow> (Inl err, w)
                           | Inr parsed \<Rightarrow>
                               queryAgent API_URL net w agentId [] (JObj [(''data'', parsed)]))
                     else queryAgent API_URL net w agentId (query s) JUndefined);
              s2 = (case result of
                      Inr r \<Rightarrow> s1\<lparr>queryResult := r\<rparr>
                    | Inl err \<Rightarrow>
                        s1\<lparr>queryError := Some ''Failed to get a response from the agent.''\<rparr>)
          in (w1, s2\<lparr>queryLoading := False\<rparr>))"

text \<open>
  AgentDetailPage.js 79-113, run from the submit event to the end of its
  \<^verbatim>\<open>finally\<close> block: the upload button is disabled while an upload is loading.
\<close>

definition handleFileUpload ::
  "string \<Rightarrow> network \<Rightarrow> string \<Rightarrow> world \<times> AgentDetailPage \<Rightarrow> world \<times> AgentDetailPage" where
  "handleFileUpload API_URL net agentId ws =
     (case ws of (w, s) \<Rightarrow>
        (case file s of
           None \<Rightarrow> (w, s)
         | Some f \<Rightarrow>
             let s1 = s\<lparr>uploadLoading := True, uploadResult := JNull, uploadError := None\<rparr>;
                 (result, w1) =
                   (case agent s of
                      None \<Rightarrow> (Inl TypeError, w)
                    | Some a \<Rightarrow> uploadDocument API_URL net w agentId f (collection_name a))
             in (case result of
                   Inr r \<Rightarrow>
                     (w1\<lparr>fileInput := (case fileInput w1 of None \<Rightarrow> None | Some v \<Rightarrow> Some [])\<rparr>,
                      s1\<lparr>uploadResult := r, file := None, uploadLoading := False\<rparr>)
                 | Inl err \<Rightarrow>
                     (w1, s1\<lparr>uploadError := Some ''Failed to upload document.'',
                             uploadLoading := False\<rparr>))))"

text \<open>AgentDetailPage.js 240: the \<^verbatim>\<open>disabled\<close> attribute of the upload button.\<close>

definition upload_disabled :: "AgentDetailPage \<Rightarrow> bool" where
  "upload_disabled s = (uploadLoading s \<or> file s = None)"

subsection \<open>Rendering the result of a query to a RAG agent\<close>

text \<open>
  The value of a JSX chain \<^verbatim>\<open>a && b && <element>\<close>: the first falsy operand, or
  the element.
\<close>

datatype 'a slot = Skipped jsval | Shown 'a

text \<open>
  \<^verbatim>\<open>x > 0\<close>. On a string, an array or an object the comparison goes through
  the platform's conversion to a number, the parameter \<open>coerce\<close>.
\<close>

fun js_gt0 :: "(jsval \<Rightarrow> bool) \<Rightarrow> jsval \<Rightarrow> bool" where
  "js_gt0 coerce JUndefined = False"
| "js_gt0 coerce JNull = False"
| "js_gt0 coerce (JBool b) = b"
| "js_gt0 coerce (JNum n) = (0 < n)"
| "js_gt0 coerce v = coerce v"

text \<open>\<^verbatim>\<open>xs.map(f)\<close> where \<open>f\<close> may throw: the first exception ends the loop.\<close>

fun map_items :: "('a \<Rightarrow> js_error + 'b) \<Rightarrow> 'a list \<Rightarrow> js_error + 'b list" where
  "map_items f [] = Inr []"
| "map_items f (x # xs) =
     (case f x of
        Inl err \<Rightarrow> Inl err
      | Inr y \<Rightarrow> (case map_items f xs of Inl err \<Rightarrow> Inl err | Inr ys \<Rightarrow> Inr (y # ys)))"

text \<open>AgentDetailPage.js 300: \<^verbatim>\<open>doc.content.substring(0, 100)\<close>. Only a string has
  a method \<^verbatim>\<open>substring\<close>.\<close>

definition source_item :: "jsval \<Rightarrow> js_error + string" where
  "source_item doc =
     (case get_prop doc ''content'' of
        Inl err \<Rightarrow> Inl err
      | Inr (JStr s) \<Rightarrow> Inr (take 100 s)
      | Inr other \<Rightarrow> Inl TypeError)"

text \<open>
  AgentDetailPage.js 294-305:
  \<^verbatim>\<open>docs && docs.length > 0 && (... docs.map(doc => ...) ...)\<close>.
  Only an array has a method \<^verbatim>\<open>map\<close>; a truthy string has a positive length; an
  object has the length its data gives it.
\<close>

definition render_sources :: "(jsval \<Rightarrow> bool) \<Rightarrow> jsval \<Rightarrow> js_error + string list slot" where
  "render_sources coerce docs =
     (if \<not> truthy docs then Inr (Skipped docs)
      else case docs of
        JArr items \<Rightarrow>
          if 0 < length items
          then (case map_items source_item items of
                  Inl err \<Rightarrow> Inl err
                | Inr shown \<Rightarrow> Inr (Shown shown))
          else Inr (Skipped (JBool False))
      | JStr s \<Rightarrow> Inl TypeError
      | JObj kvs \<Rightarrow>
          if js_gt0 coerce (case map_of kvs ''length'' of None \<Rightarrow> JUndefined | Some n \<Rightarrow> n)
          then Inl TypeError
          else Inr (Skipped (JBool False))
      | other \<Rightarrow> Inr (Skipped (JBool False)))"

text \<open>The answer and, when shown, the first 100 characters of each source.\<close>

datatype rag_view = RagAnswer jsval "string list slot"

text \<open>AgentDetailPage.js 290-307, past the test of the agent's type.\<close>

definition render_rag :: "(jsval \<Rightarrow> bool) \<Rightarrow> jsval \<Rightarrow> js_error + rag_view slot" where
  "render_rag coerce result =
     (case get_prop result ''answer'' of
        Inl err \<Rightarrow> Inl err
      | Inr answer \<Rightarrow>
          if \<not> truthy answer then Inr (Skipped answer)
          else (case get_prop result ''source_documents'' of
                  Inl err \<Rightarrow> Inl err
                | Inr docs \<Rightarrow>
                    (case render_sources coerce docs of
                       Inl err \<Rightarrow> Inl err
                     | Inr sources \<Rightarrow> Inr (Shown (RagAnswer answer sources)))))"

text \<open>
  AgentDetailPage.js 285-307, as the page function evaluates it: the block is not
  reached for a falsy \<^verbatim>\<open>queryResult\<close>, and is \<^verbatim>\<open>false\<close> for an agent of
  another type. An exception leaves the page function.
\<close>

definition render_rag_response ::
  "(jsval \<Rightarrow> bool) \<Rightarrow> Agent \<Rightarrow> jsval \<Rightarrow> js_error + rag_view slot" where
  "render_rag_response coerce a result =
     (if \<not> truthy result then Inr (Skipped result)
      else if type a = ''rag'' then render_rag coerce result
      else Inr (Skipped (JBool False)))"

section \<open>The agent list page\<close>

text \<open>The state of the component \<^verbatim>\<open>AgentsPage\<close>, in pages/CreateAgentPage.js (lines 7-9).\<close>

record AgentsPage =
  agents :: "Agent list"
  loading :: bool
  error :: "string option"

text \<open>
  \<^verbatim>\<open>AgentsPage.deleteAgent\<close> (lines 27-39). \<open>confirmed\<close> is the answer of
  \<^verbatim>\<open>window.confirm\<close>; \<open>agents s\<close> is the list of the render in which the
  button was clicked. One handler runs at a time.
\<close>

definition AgentsPage_deleteAgent ::
  "string \<Rightarrow> network \<Rightarrow> bool \<Rightarrow> string \<Rightarrow> world \<times> AgentsPage \<Rightarrow> world \<times> AgentsPage" where
  "AgentsPage_deleteAgent API_URL net confirmed agentId ws =
     (case ws of (w, s) \<Rightarrow>
        if \<not> confirmed then (w, s)
        else (case deleteAgent API_URL net w agentId of
                (Inr ok, w1) \<Rightarrow> (w1, s\<lparr>agents := filter (\<lambda>agent. id agent \<noteq> agentId) (agents s)\<rparr>)
              | (Inl err, w1) \<Rightarrow>
                  (w1, s\<lparr>AgentsPage.error := Some ''Failed to delete agent. Please try again.''\<rparr>)))"

section \<open>Vocabulary of the properties\<close>

text \<open>What the response interceptor does to the browser on a 401, and nothing at all.\<close>

definition token_cleared :: "world \<Rightarrow> world \<Rightarrow> bool" where
  "token_cleared w w' =
     (localStorage w' = (localStorage w)(''token'' := None) \<and>
      removeItem_calls w' = removeItem_calls w @ [''token''] \<and>
      href w' = ''/login'')"

definition browser_untouched :: "world \<Rightarrow> world \<Rightarrow> bool" where
  "browser_untouched w w' =
     (localStorage w' = localStorage w \<and>
      removeItem_calls w' = removeItem_calls w \<and>
      href w' = href w)"



text \<open>The config that a call through \<^verbatim>\<open>api\<close> hands to the network.\<close>

definition api_config ::
  "string \<Rightarrow> world \<Rightarrow> http_method \<Rightarrow> string \<Rightarrow> payload \<Rightarrow> (string \<times> string) list \<Rightarrow> request" where
  "api_config API_URL w m u d hs =
     request_interceptor w
       \<lparr>baseURL = Some API_URL, method = m, url = u, data = d,
        headers = mergeHeaders [(''Content-Type'', ''application/json'')] hs\<rparr>"

definition query_config :: "string \<Rightarrow> world \<Rightarrow> string \<Rightarrow> string \<Rightarrow> jsval \<Rightarrow> request" where
  "query_config API_URL w agentId q parameters =
     api_config API_URL w POST (''/agents/'' @ agentId @ ''/query'')
       (JsonData (JObj [(''query'', JStr q), (''parameters'', parameters)])) []"


text \<open>How a call ends, by what the network gave back; \<open>intercepted\<close> tells whether the
  call went through the instance \<^verbatim>\<open>api\<close>.\<close>

definition settled ::
  "bool \<Rightarrow> outcome \<Rightarrow> (js_error + nat \<times> jsval) \<Rightarrow> world \<Rightarrow> world \<Rightarrow> bool" where
  "settled intercepted out r w w' =
     (case out of
        Response st d \<Rightarrow>
          if 200 \<le> st \<and> st < 300 then r = Inr (st, d) \<and> browser_untouched w w'
          else r = Inl (AxiosError (Some (st, d))) \<and>
               (if st = 401 \<and> intercepted then token_cleared w w' else browser_untouched w w')
      | NoResponse \<Rightarrow> r = Inl (AxiosError None) \<and> browser_untouched w w')"

definition settled_data ::
  "bool \<Rightarrow> outcome \<Rightarrow> (js_error + jsval) \<Rightarrow> world \<Rightarrow> world \<Rightarrow> bool" where
  "settled_data intercepted out r w w' =
     (case out of
        Response st d \<Rightarrow>
          if 200 \<le> st \<and> st < 300 then r = Inr d \<and> browser_untouched w w'
          else r = Inl (AxiosError (Some (st, d))) \<and>
               (if st = 401 \<and> intercepted then token_cleared w w' else browser_untouched w w')
      | NoResponse \<Rightarrow> r = Inl (AxiosError None) \<and> browser_untouched w w')"

text \<open>A response that resolves the call.\<close>

fun succeeded :: "outcome \<Rightarrow> bool" where
  "succeeded (Response st d) = (200 \<le> st \<and> st < 300)"
| "succeeded NoResponse = False"

text \<open>The query state shows a result or an error, never both.\<close>

definition exclusive :: "AgentDetailPage \<Rightarrow> bool" where
  "exclusive s = (queryResult s = JNull \<or> queryError s = None)"

text \<open>An element of \<^verbatim>\<open>source_documents\<close> whose \<^verbatim>\<open>content\<close> is a string.\<close>

definition string_content :: "jsval \<Rightarrow> bool" where
  "string_content doc =
     (case get_prop doc ''content'' of Inr (JStr s) \<Rightarrow> True | other \<Rightarrow> False)"

section \<open>Sample inputs\<close>

definition api_url :: string where
  "api_url = ''http://localhost:8000''"

definition world0 :: world where
  "world0 =
     \<lparr>localStorage = [''token'' \<mapsto> ''t0''], href = ''/agents'',
      fileInput = Some ''notes.txt'', sent = [], removeItem_calls = []\<rparr>"


definition net_500 :: network where
  "net_500 req = Response 500 JNull"

definition net_204 :: network where
  "net_204 req = Response 204 JNull"

definition net_down :: network where
  "net_down req = NoResponse"

definition net_ok :: network where
  "net_ok req = Response 200 (JObj [(''answer'', JStr ''ok'')])"

text \<open>\<^verbatim>\<open>JSON.parse\<close> on the texts of the examples: it accepts \<^verbatim>\<open>{"a":1}\<close> and
  rejects \<^verbatim>\<open>not json\<close>.\<close>

definition sample_grammar :: "string \<Rightarrow> jsval option" where
  \<open>sample_grammar text =
     (if text = ''{"a":1}'' then Some (JObj [(''a'', JNum 1)]) else None)\<close>

definition no_coercion :: "jsval \<Rightarrow> bool" where
  "no_coercion v = False"

definition ml_agent :: Agent where
  "ml_agent =
     \<lparr>id = ''42'', name = ''churn'', type = ''ml'', description = None, config = [],
      created_at = ''2024-01-01''\<rparr>"

definition rag_agent :: Agent where
  "rag_agent =
     \<lparr>id = ''7'', name = ''handbook'', type = ''rag'', description = None,
      config = [(''collection_name'', JStr ''docs'')], created_at = ''2024-01-01''\<rparr>"

definition search_agent :: Agent where
  "search_agent =
     \<lparr>id = ''9'', name = ''news'', type = ''search'', description = Some ''web search'',
      config = [], created_at = ''2024-02-02''\<rparr>"




definition page_of :: "Agent \<Rightarrow> string \<Rightarrow> AgentDetailPage" where
  "page_of a q = initial_page\<lparr>agent := Some a, AgentDetailPage.loading := False, query := q\<rparr>"

text \<open>The page after a query that got no response, with blanks typed into the box.\<close>

definition blanks_after_failure :: AgentDetailPage where
  "blanks_after_failure =
     (snd (handleQuerySubmit sample_grammar api_url net_down ''7''
            (world0, page_of rag_agent ''hello'')))\<lparr>query := ''   ''\<rparr>"



definition agent_list :: AgentsPage where
  "agent_list = \<lparr>agents = [rag_agent, ml_agent, search_agent], loading = False, error = None\<rparr>"

definition rag_result :: jsval where
  "rag_result =
     JObj [(''answer'', JStr ''Agents answer queries.''),
           (''source_documents'',
              JArr [JObj [(''content'', JStr ''The platform hosts agents.'')],
                    JObj [(''page_content'', JStr ''Agents answer queries.'')]])]"

section \<open>The API client\<close>

lemma axios_dispatch_settled:
  "axios_dispatch net w req = (r, w') \<Longrightarrow>
     sent w' = sent w @ [req] \<and> fileInput w' = fileInput w \<and> settled False (net req) r w w'"
  by (auto simp: axios_dispatch_def settled_def browser_untouched_def Let_def
           split: outcome.splits if_splits)

lemma api_request_settled:
  assumes "api_request API_URL net w m u d hs = (r, w')"
  shows "sent w' = sent w @ [api_config API_URL w m u d hs] \<and> fileInput w' = fileInput w \<and>
         settled True (net (api_config API_URL w m u d hs)) r w w'"
proof -
  let ?req = "api_config API_URL w m u d hs"
  obtain r1 w1 where d: "axios_dispatch net w ?req = (r1, w1)" by force
  note s = axios_dispatch_settled [OF d]
  show ?thesis
  proof (cases r1)
    case (Inr resp)
    with assms d have "r = r1" "w' = w1" by (auto simp: api_request_def api_config_def Let_def)
    with s Inr show ?thesis by (auto simp: settled_def split: outcome.splits if_splits)
  next
    case (Inl e)
    with assms d have rr: "(r, w') = (case response_rejected w1 e of (e', w2) \<Rightarrow> (Inl e', w2))"
      by (auto simp: api_request_def api_config_def Let_def)
    from s Inl rr show ?thesis
      by (auto simp: settled_def response_rejected_def browser_untouched_def token_cleared_def
          split: outcome.splits if_splits)
  qed
qed

lemma response_data_settled:
  assumes "response_data (api_request API_URL net w m u d hs) = (r, w')"
  shows "sent w' = sent w @ [api_config API_URL w m u d hs] \<and> fileInput w' = fileInput w \<and>
         settled_data True (net (api_config API_URL w m u d hs)) r w w'"
proof -
  obtain r1 w1 where a: "api_request API_URL net w m u d hs = (r1, w1)" by force
  from assms a have "w' = w1" "r = (case r1 of Inr (st, d) \<Rightarrow> Inr d | Inl e \<Rightarrow> Inl e)"
    by (auto simp: response_data_def split: sum.splits prod.splits)
  with api_request_settled [OF a] show ?thesis
    by (auto simp: settled_def settled_data_def split: outcome.splits if_splits)
qed

lemma api_config_fields [simp]:
  "baseURL (api_config API_URL w m u d hs) = Some API_URL"
  "method (api_config API_URL w m u d hs) = m"
  "url (api_config API_URL w m u d hs) = u"
  "data (api_config API_URL w m u d hs) = d"
  by (simp_all add: api_config_def request_interceptor_def split: option.splits)




lemma deleteAgent_settled:
  assumes "deleteAgent API_URL net w agentId = (r, w')"
  shows "sent w' = sent w @ [api_config API_URL w DELETE (''/agents/'' @ agentId) NoData []] \<and>
         fileInput w' = fileInput w \<and>
         (case net (api_config API_URL w DELETE (''/agents/'' @ agentId) NoData []) of
            Response st d \<Rightarrow>
              if 200 \<le> st \<and> st < 300 then r = Inr (JBool True) \<and> browser_untouched w w'
              else r = Inl (AxiosError (Some (st, d))) \<and>
                   (if st = 401 then token_cleared w w' else browser_untouched w w')
          | NoResponse \<Rightarrow> r = Inl (AxiosError None) \<and> browser_untouched w w')"
proof -
  obtain r1 w1 where
    a: "api_request API_URL net w DELETE (''/agents/'' @ agentId) NoData [] = (r1, w1)"
    by force
  from assms a have "w' = w1" "r = (case r1 of Inr x \<Rightarrow> Inr (JBool True) | Inl e \<Rightarrow> Inl e)"
    by (auto simp: deleteAgent_def split: sum.splits prod.splits)
  with api_request_settled [OF a] show ?thesis
    by (auto simp: settled_def split: outcome.splits if_splits)
qed

lemma queryAgent_settled:
  assumes "queryAgent API_URL net w agentId q parameters = (r, w')"
  shows "sent w' = sent w @ [query_config API_URL w agentId q
                              (if parameters = JUndefined then JObj [] else parameters)] \<and>
         fileInput w' = fileInput w \<and>
         settled_data True
           (net (query_config API_URL w agentId q
                  (if parameters = JUndefined then JObj [] else parameters))) r w w'"
  using response_data_settled [OF assms [unfolded queryAgent_def]]
  by (simp add: query_config_def)











section \<open>Submitting a query\<close>

text \<open>The ways through the handler: blank text, an exception before the call, the call.\<close>

lemma handleQuerySubmit_blank:
  "trim (query s) = [] \<Longrightarrow> handleQuerySubmit grammar API_URL net agentId (w, s) = (w, s)"
  by (simp add: handleQuerySubmit_def)

lemma handleQuerySubmit_thrown:
  assumes "trim (query s) \<noteq> []"
    and "agent s = None \<or>
         (\<exists>a err. agent s = Some a \<and> type a = ''ml'' \<and>
                  JSON_parse grammar (query s) = Inl err)"
  shows "handleQuerySubmit grammar API_URL net agentId (w, s) =
           (w, s\<lparr>queryLoading := False, queryResult := JNull,
                 queryError := Some ''Failed to get a response from the agent.''\<rparr>)"
  using assms by (auto simp: handleQuerySubmit_def Let_def)

lemma handleQuerySubmit_called:
  assumes "trim (query s) \<noteq> []" and "agent s = Some a"
    and "if type a = ''ml''
         then JSON_parse grammar (query s) = Inr parsed \<and> q = [] \<and>
              p = JObj [(''data'', parsed)]
         else q = query s \<and> p = JUndefined"
    and "queryAgent API_URL net w agentId q p = (r, w1)"
  shows "handleQuerySubmit grammar API_URL net agentId (w, s) =
           (w1, case r of
                  Inr result \<Rightarrow>
                    s\<lparr>queryLoading := False, queryResult := result, queryError := None\<rparr>
                | Inl err \<Rightarrow>
                    s\<lparr>queryLoading := False, queryResult := JNull,
                      queryError := Some ''Failed to get a response from the agent.''\<rparr>)"
  using assms by (auto simp: handleQuerySubmit_def Let_def split: sum.splits if_splits)

text \<open>
  C3, as amended. For an agent of type \<^verbatim>\<open>ml\<close>, submitting text that
  \<^verbatim>\<open>JSON.parse\<close> rejects issues no request and leaves the browser as it was. When
  the text holds a character that is not white space, the result is cleared, loading
  ends, and the failure is shown with the page's one message for a failed query,
  \<^verbatim>\<open>Failed to get a response from the agent.\<close>; when the text is blank, the handler
  returns at once and the page state is unchanged.
\<close>

theorem ml_malformed_json_not_sent:
  assumes "agent s = Some a" and "type a = ''ml''"
    and "JSON_parse grammar (query s) = Inl err"
    and "handleQuerySubmit grammar API_URL net agentId (w, s) = (w', s')"
  shows "w' = w \<and>
         (if trim (query s) = [] then s' = s
          else s' = s\<lparr>queryLoading := False, queryResult := JNull,
                      queryError := Some ''Failed to get a response from the agent.''\<rparr>)"
proof (cases "trim (query s) = []")
  case True
  with handleQuerySubmit_blank [OF True, of grammar API_URL net agentId w] assms(4)
  show ?thesis by simp
next
  case False
  have "agent s = None \<or>
        (\<exists>a err. agent s = Some a \<and> type a = ''ml'' \<and>
                 JSON_parse grammar (query s) = Inl err)"
    using assms(1-3) by blast
  from handleQuerySubmit_thrown [OF False this, of API_URL net agentId w] assms(4) False
  show ?thesis by simp
qed

theorem ml_malformed_json_not_sent_witness:
  "fst (handleQuerySubmit sample_grammar api_url net_ok ''42''
          (world0, page_of ml_agent ''not json'')) = world0 \<and>
   snd (handleQuerySubmit sample_grammar api_url net_ok ''42''
          (world0, page_of ml_agent ''not json'')) =
     (page_of ml_agent ''not json'')
       \<lparr>queryLoading := False, queryResult := JNull,
        queryError := Some ''Failed to get a response from the agent.''\<rparr>"
proof -
  have p: "JSON_parse sample_grammar (query (page_of ml_agent ''not json'')) = Inl SyntaxError"
    by (simp add: JSON_parse_def sample_grammar_def page_of_def)
  have a: "agent (page_of ml_agent ''not json'') = Some ml_agent"
    by (simp add: page_of_def)
  have t: "type ml_agent = ''ml''" by (simp add: ml_agent_def)
  have n: "trim (query (page_of ml_agent ''not json'')) \<noteq> []"
    by (simp add: page_of_def trim_def isWhiteSpace_def)
  from ml_malformed_json_not_sent [OF a t p, of api_url net_ok "''42''" world0
        "fst (handleQuerySubmit sample_grammar api_url net_ok ''42''
               (world0, page_of ml_agent ''not json''))"
        "snd (handleQuerySubmit sample_grammar api_url net_ok ''42''
               (world0, page_of ml_agent ''not json''))"]
       n
  show ?thesis by simp
qed

text \<open>
  C3 as stated fails: the message after text that is not JSON, for which nothing was
  sent, is the message after a request that got no response; and blank text, which is
  not JSON either, is reported with no message.
\<close>

theorem ml_malformed_json_same_message:
  \<open>sent (fst (handleQuerySubmit sample_grammar api_url net_down ''42''
                (world0, page_of ml_agent ''not json''))) = [] \<and>
   queryError (snd (handleQuerySubmit sample_grammar api_url net_down ''42''
                (world0, page_of ml_agent ''not json''))) =
     Some ''Failed to get a response from the agent.'' \<and>
   length (sent (fst (handleQuerySubmit sample_grammar api_url net_down ''42''
                (world0, page_of ml_agent ''{"a":1}'')))) = 1 \<and>
   queryError (snd (handleQuerySubmit sample_grammar api_url net_down ''42''
                (world0, page_of ml_agent ''{"a":1}''))) =
     Some ''Failed to get a response from the agent.'' \<and>
   queryError (snd (handleQuerySubmit sample_grammar api_url net_down ''42''
                (world0, page_of ml_agent ''   ''))) = None\<close>
  by (simp add: handleQuerySubmit_def page_of_def initial_page_def ml_agent_def trim_def
        isWhiteSpace_def JSON_parse_def sample_grammar_def queryAgent_def response_data_def
        api_request_def axios_dispatch_def request_interceptor_def response_rejected_def
        mergeHeaders_def net_down_def world0_def Let_def)

text \<open>
  C4. For an agent of type \<^verbatim>\<open>ml\<close>, submitting text that \<^verbatim>\<open>JSON.parse\<close>
  accepts issues exactly one request, a POST to \<^verbatim>\<open>/agents/<id>/query\<close> whose body is
  \<^verbatim>\<open>{query: "", parameters: {data: <the parsed value>}}\<close>.
\<close>

theorem ml_query_wraps_parsed_json:
  assumes "agent s = Some a" and "type a = ''ml''"
    and "JSON_parse grammar (query s) = Inr parsed"
    and "handleQuerySubmit grammar API_URL net agentId (w, s) = (w', s')"
  shows "\<exists>req. sent w' = sent w @ [req] \<and> method req = POST \<and>
           baseURL req = Some API_URL \<and>
           url req = ''/agents/'' @ agentId @ ''/query'' \<and>
           data req = JsonData (JObj [(''query'', JStr ''''),
                                      (''parameters'', JObj [(''data'', parsed)])])"
proof -
  from assms(3) have nb: "trim (query s) \<noteq> []"
    by (auto simp: JSON_parse_def split: if_splits)
  obtain r w1 where
    q: "queryAgent API_URL net w agentId [] (JObj [(''data'', parsed)]) = (r, w1)"
    by force
  from handleQuerySubmit_called [OF nb assms(1) _ q, of grammar parsed] assms
  have "w' = w1" by simp
  with queryAgent_settled [OF q] show ?thesis
    by (simp add: query_config_def)
qed

theorem ml_query_wraps_parsed_json_witness:
  \<open>sent (fst (handleQuerySubmit sample_grammar api_url net_ok ''42''
                (world0, page_of ml_agent ''{"a":1}''))) =
     [\<lparr>baseURL = Some api_url, method = POST, url = ''/agents/42/query'',
       data = JsonData (JObj [(''query'', JStr ''''),
                              (''parameters'', JObj [(''data'', JObj [(''a'', JNum 1)])])]),
       headers = [(''Content-Type'', ''application/json''),
                  (''Authorization'', ''Bearer t0'')]\<rparr>] \<and>
   (\<exists>req. sent (fst (handleQuerySubmit sample_grammar api_url net_ok ''42''
                (world0, page_of ml_agent ''{"a":1}''))) = sent world0 @ [req] \<and>
          data req = JsonData (JObj [(''query'', JStr ''''),
                              (''parameters'', JObj [(''data'', JObj [(''a'', JNum 1)])])]))\<close>
proof -
  have p: \<open>JSON_parse sample_grammar (query (page_of ml_agent ''{"a":1}'')) =
             Inr (JObj [(''a'', JNum 1)])\<close>
    by (simp add: JSON_parse_def sample_grammar_def page_of_def trim_def isWhiteSpace_def)
  have a: \<open>agent (page_of ml_agent ''{"a":1}'') = Some ml_agent\<close>
    by (simp add: page_of_def)
  have t: "type ml_agent = ''ml''" by (simp add: ml_agent_def)
  note ml_query_wraps_parsed_json [OF a t p, of api_url net_ok "''42''" world0
        \<open>fst (handleQuerySubmit sample_grammar api_url net_ok ''42''
               (world0, page_of ml_agent ''{"a":1}''))\<close>
        \<open>snd (handleQuerySubmit sample_grammar api_url net_ok ''42''
               (world0, page_of ml_agent ''{"a":1}''))\<close>]
  then have e: \<open>\<exists>req. sent (fst (handleQuerySubmit sample_grammar api_url net_ok ''42''
                (world0, page_of ml_agent ''{"a":1}''))) = sent world0 @ [req] \<and>
          data req = JsonData (JObj [(''query'', JStr ''''),
                              (''parameters'', JObj [(''data'', JObj [(''a'', JNum 1)])])])\<close>
    by auto
  have \<open>sent (fst (handleQuerySubmit sample_grammar api_url net_ok ''42''
                (world0, page_of ml_agent ''{"a":1}''))) =
     [\<lparr>baseURL = Some api_url, method = POST, url = ''/agents/42/query'',
       data = JsonData (JObj [(''query'', JStr ''''),
                              (''parameters'', JObj [(''data'', JObj [(''a'', JNum 1)])])]),
       headers = [(''Content-Type'', ''application/json''),
                  (''Authorization'', ''Bearer t0'')]\<rparr>]\<close>
    by (simp add: handleQuerySubmit_def page_of_def initial_page_def ml_agent_def trim_def
          isWhiteSpace_def JSON_parse_def sample_grammar_def queryAgent_def response_data_def
          api_request_def axios_dispatch_def request_interceptor_def mergeHeaders_def
          net_ok_def world0_def Let_def)
  with e show ?thesis by blast
qed

text \<open>
  C5, as amended. For an agent whose type is not \<^verbatim>\<open>ml\<close>, submitting text \<open>q\<close>
  that holds a character other than white space issues exactly one request, a POST to
  \<^verbatim>\<open>/agents/<id>/query\<close> whose body is \<^verbatim>\<open>{query: q, parameters: {}}\<close>, with
  \<open>q\<close> as typed, untrimmed. Submitting blank text issues no request and changes
  nothing.
\<close>

theorem text_query_sent_verbatim:
  assumes "agent s = Some a" and "type a \<noteq> ''ml''"
    and "handleQuerySubmit grammar API_URL net agentId (w, s) = (w', s')"
  shows "if trim (query s) = [] then w' = w \<and> s' = s
         else \<exists>req. sent w' = sent w @ [req] \<and> method req = POST \<and>
                baseURL req = Some API_URL \<and>
                url req = ''/agents/'' @ agentId @ ''/query'' \<and>
                data req = JsonData (JObj [(''query'', JStr (query s)),
                                           (''parameters'', JObj [])])"
proof (cases "trim (query s) = []")
  case True
  with handleQuerySubmit_blank [OF True, of grammar API_URL net agentId w] assms(3)
  show ?thesis by simp
next
  case False
  obtain r w1 where q: "queryAgent API_URL net w agentId (query s) JUndefined = (r, w1)"
    by force
  from handleQuerySubmit_called [OF False assms(1) _ q, of grammar undefined] assms
  have "w' = w1" by simp
  with queryAgent_settled [OF q] False show ?thesis
    by (simp add: query_config_def)
qed

theorem text_query_sent_verbatim_witness:
  "sent (fst (handleQuerySubmit sample_grammar api_url net_ok ''7''
               (world0, page_of rag_agent '' what is it? ''))) =
     [\<lparr>baseURL = Some api_url, method = POST, url = ''/agents/7/query'',
       data = JsonData (JObj [(''query'', JStr '' what is it? ''), (''parameters'', JObj [])]),
       headers = [(''Content-Type'', ''application/json''),
                  (''Authorization'', ''Bearer t0'')]\<rparr>] \<and>
   (\<exists>req. sent (fst (handleQuerySubmit sample_grammar api_url net_ok ''7''
               (world0, page_of rag_agent '' what is it? ''))) = sent world0 @ [req] \<and>
      data req = JsonData (JObj [(''query'', JStr '' what is it? ''),
                                 (''parameters'', JObj [])]))"
proof -
  have a: "agent (page_of rag_agent '' what is it? '') = Some rag_agent"
    by (simp add: page_of_def)
  have t: "type rag_agent \<noteq> ''ml''" by (simp add: rag_agent_def)
  have n: "trim (query (page_of rag_agent '' what is it? '')) \<noteq> []"
    by (simp add: page_of_def trim_def isWhiteSpace_def)
  from text_query_sent_verbatim [OF a t, of sample_grammar api_url net_ok "''7''" world0
        "fst (handleQuerySubmit sample_grammar api_url net_ok ''7''
               (world0, page_of rag_agent '' what is it? ''))"
        "snd (handleQuerySubmit sample_grammar api_url net_ok ''7''
               (world0, page_of rag_agent '' what is it? ''))"]
       n
  have e: "\<exists>req. sent (fst (handleQuerySubmit sample_grammar api_url net_ok ''7''
               (world0, page_of rag_agent '' what is it? ''))) = sent world0 @ [req] \<and>
      data req = JsonData (JObj [(''query'', JStr '' what is it? ''),
                                 (''parameters'', JObj [])])"
    by (auto simp: page_of_def)
  have "sent (fst (handleQuerySubmit sample_grammar api_url net_ok ''7''
               (world0, page_of rag_agent '' what is it? ''))) =
     [\<lparr>baseURL = Some api_url, method = POST, url = ''/agents/7/query'',
       data = JsonData (JObj [(''query'', JStr '' what is it? ''), (''parameters'', JObj [])]),
       headers = [(''Content-Type'', ''application/json''),
                  (''Authorization'', ''Bearer t0'')]\<rparr>]"
    by (simp add: handleQuerySubmit_def page_of_def initial_page_def rag_agent_def trim_def
          isWhiteSpace_def queryAgent_def response_data_def
          api_request_def axios_dispatch_def request_interceptor_def mergeHeaders_def
          net_ok_def world0_def Let_def)
  with e show ?thesis by blast
qed

text \<open>
  C5 as stated fails on text of white space only: for a \<^verbatim>\<open>rag\<close> agent and the text
  of three spaces, no request is issued.
\<close>

theorem blank_text_query_not_sent:
  "type rag_agent = ''rag'' \<and>
   sent (fst (handleQuerySubmit sample_grammar api_url net_ok ''7''
               (world0, page_of rag_agent ''   ''))) = []"
  by (simp add: handleQuerySubmit_def page_of_def initial_page_def rag_agent_def trim_def
        isWhiteSpace_def world0_def)

text \<open>
  C10, as amended. A submission whose text is not blank first clears the result and the
  error and then ends in one of two states, both with the loading flag cleared. When
  the handler throws before the call (no agent, or text of an \<^verbatim>\<open>ml\<close> agent that
  is not JSON), nothing is sent and it ends with no result and the error message.
  Otherwise one query request is sent, and it ends with the body of the response as
  the result and no error when the response has a status in 200..299, and with no
  result and the error message on any other status and on no response. A submission
  of blank text returns before the reset and leaves the state as it was. So every
  submission keeps the invariant that the result and the error are not both set, and
  the page starts in it.
\<close>

theorem query_result_and_error_exclusive:
  assumes "handleQuerySubmit grammar API_URL net agentId (w, s) = (w', s')"
  shows "(if trim (query s) = [] then w' = w \<and> s' = s
          else if (case agent s of
                     None \<Rightarrow> True
                   | Some a \<Rightarrow> type a = ''ml'' \<and> isl (JSON_parse grammar (query s)))
          then w' = w \<and>
               s' = s\<lparr>queryLoading := False, queryResult := JNull,
                       queryError := Some ''Failed to get a response from the agent.''\<rparr>
          else \<exists>req. sent w' = sent w @ [req] \<and> method req = POST \<and>
                 url req = ''/agents/'' @ agentId @ ''/query'' \<and>
                 (case net req of
                    Response st d \<Rightarrow>
                      if 200 \<le> st \<and> st < 300
                      then s' = s\<lparr>queryLoading := False, queryResult := d,
                                  queryError := None\<rparr>
                      else s' = s\<lparr>queryLoading := False, queryResult := JNull,
                                  queryError :=
                                    Some ''Failed to get a response from the agent.''\<rparr>
                  | NoResponse \<Rightarrow>
                      s' = s\<lparr>queryLoading := False, queryResult := JNull,
                              queryError :=
                                Some ''Failed to get a response from the agent.''\<rparr>)) \<and>
         (exclusive s \<longrightarrow> exclusive s') \<and>
         exclusive initial_page"
proof -
  let ?failed = "s\<lparr>queryLoading := False, queryResult := JNull,
                   queryError := Some ''Failed to get a response from the agent.''\<rparr>"
  let ?thrown = "case agent s of
                   None \<Rightarrow> True
                 | Some a \<Rightarrow> type a = ''ml'' \<and> isl (JSON_parse grammar (query s))"
  let ?ended = "\<lambda>req. case net req of
                    Response st d \<Rightarrow>
                      if 200 \<le> st \<and> st < 300
                      then s' = s\<lparr>queryLoading := False, queryResult := d,
                                  queryError := None\<rparr>
                      else s' = ?failed
                  | NoResponse \<Rightarrow> s' = ?failed"
  have ex: "exclusive ?failed"
    and ok: "\<And>d. exclusive (s\<lparr>queryLoading := False, queryResult := d, queryError := None\<rparr>)"
    by (simp_all add: exclusive_def)
  have ended_exclusive: "exclusive s'" if "?ended req" for req
    using that ex ok by (cases "net req") (auto split: if_splits)
  consider (blank) "trim (query s) = []"
    | (thrown) "trim (query s) \<noteq> []" "?thrown"
    | (called) "trim (query s) \<noteq> []" "\<not> ?thrown"
    by blast
  then have 1: "(if trim (query s) = [] then w' = w \<and> s' = s
          else if ?thrown then w' = w \<and> s' = ?failed
          else \<exists>req. sent w' = sent w @ [req] \<and> method req = POST \<and>
                 url req = ''/agents/'' @ agentId @ ''/query'' \<and> ?ended req) \<and>
         (exclusive s \<longrightarrow> exclusive s')"
  proof cases
    case blank
    with handleQuerySubmit_blank [OF blank, of grammar API_URL net agentId w] assms
    show ?thesis by simp
  next
    case thrown
    from thrown(2) have "agent s = None \<or>
        (\<exists>a err. agent s = Some a \<and> type a = ''ml'' \<and>
                 JSON_parse grammar (query s) = Inl err)"
      by (cases "agent s"; cases "JSON_parse grammar (query s)") auto
    from handleQuerySubmit_thrown [OF thrown(1) this, of API_URL net agentId w] assms
    have "w' = w" "s' = ?failed" by simp_all
    with thrown ex show ?thesis by simp
  next
    case called
    then obtain a where a: "agent s = Some a"
      by (cases "agent s") auto
    define parsed where "parsed = projr (JSON_parse grammar (query s))"
    define q where "q = (if type a = ''ml'' then [] else query s)"
    define p where "p = (if type a = ''ml'' then JObj [(''data'', parsed)] else JUndefined)"
    have qp: "if type a = ''ml''
              then JSON_parse grammar (query s) = Inr parsed \<and>
                   q = [] \<and> p = JObj [(''data'', parsed)]
              else q = query s \<and> p = JUndefined"
      using called(2) a
      by (cases "JSON_parse grammar (query s)") (auto simp: q_def p_def parsed_def)
    obtain r w1 where c: "queryAgent API_URL net w agentId q p = (r, w1)"
      by force
    let ?req = "query_config API_URL w agentId q (if p = JUndefined then JObj [] else p)"
    note st = queryAgent_settled [OF c]
    from handleQuerySubmit_called [OF called(1) a qp c] assms
    have w: "w' = w1" and s: "s' = (case r of
                  Inr result \<Rightarrow>
                    s\<lparr>queryLoading := False, queryResult := result, queryError := None\<rparr>
                | Inl err \<Rightarrow> ?failed)"
      by simp_all
    have e: "?ended ?req"
      using st s by (cases "net ?req") (auto simp: settled_data_def split: if_splits)
    have "sent w' = sent w @ [?req]" "method ?req = POST"
      "url ?req = ''/agents/'' @ agentId @ ''/query''"
      using st w by (simp_all add: query_config_def)
    with e have "\<exists>req. sent w' = sent w @ [req] \<and> method req = POST \<and>
                 url req = ''/agents/'' @ agentId @ ''/query'' \<and> ?ended req"
      by blast
    with called ended_exclusive [OF e] show ?thesis by simp
  qed
  have 3: "exclusive initial_page"
    by (simp add: exclusive_def initial_page_def)
  show ?thesis
    by (rule conjI [OF conjunct1 [OF 1] conjI [OF conjunct2 [OF 1] 3]])
qed

text \<open>A query that is answered, and a query that the backend fails.\<close>

theorem query_result_and_error_exclusive_witness:
  "exclusive (page_of rag_agent ''hello'') \<and>
   exclusive (snd (handleQuerySubmit sample_grammar api_url net_ok ''7''
                    (world0, page_of rag_agent ''hello''))) \<and>
   snd (handleQuerySubmit sample_grammar api_url net_ok ''7''
          (world0, page_of rag_agent ''hello'')) =
     (page_of rag_agent ''hello'')
       \<lparr>queryLoading := False, queryResult := JObj [(''answer'', JStr ''ok'')],
        queryError := None\<rparr> \<and>
   snd (handleQuerySubmit sample_grammar api_url net_500 ''7''
          (world0, page_of rag_agent ''hello'')) =
     (page_of rag_agent ''hello'')
       \<lparr>queryLoading := False, queryResult := JNull,
        queryError := Some ''Failed to get a response from the agent.''\<rparr>"
proof -
  have e: "exclusive (page_of rag_agent ''hello'')"
    by (simp add: exclusive_def page_of_def initial_page_def)
  have n: "trim (query (page_of rag_agent ''hello'')) \<noteq> []"
    by (simp add: page_of_def trim_def isWhiteSpace_def)
  have a: "agent (page_of rag_agent ''hello'') = Some rag_agent"
    by (simp add: page_of_def)
  have t: "type rag_agent \<noteq> ''ml''" by (simp add: rag_agent_def)
  from query_result_and_error_exclusive
       [of sample_grammar api_url net_ok "''7''" world0 "page_of rag_agent ''hello''"
           "fst (handleQuerySubmit sample_grammar api_url net_ok ''7''
                  (world0, page_of rag_agent ''hello''))"
           "snd (handleQuerySubmit sample_grammar api_url net_ok ''7''
                  (world0, page_of rag_agent ''hello''))"]
       e n a t
  have ok: "exclusive (snd (handleQuerySubmit sample_grammar api_url net_ok ''7''
                         (world0, page_of rag_agent ''hello''))) \<and>
            snd (handleQuerySubmit sample_grammar api_url net_ok ''7''
                   (world0, page_of rag_agent ''hello'')) =
              (page_of rag_agent ''hello'')
                \<lparr>queryLoading := False, queryResult := JObj [(''answer'', JStr ''ok'')],
                 queryError := None\<rparr>"
    by (auto simp: net_ok_def)
  from query_result_and_error_exclusive
       [of sample_grammar api_url net_500 "''7''" world0 "page_of rag_agent ''hello''"
           "fst (handleQuerySubmit sample_grammar api_url net_500 ''7''
                  (world0, page_of rag_agent ''hello''))"
           "snd (handleQuerySubmit sample_grammar api_url net_500 ''7''
                  (world0, page_of rag_agent ''hello''))"]
       n a t
  have ko: "snd (handleQuerySubmit sample_grammar api_url net_500 ''7''
                   (world0, page_of rag_agent ''hello'')) =
              (page_of rag_agent ''hello'')
                \<lparr>queryLoading := False, queryResult := JNull,
                 queryError := Some ''Failed to get a response from the agent.''\<rparr>"
    by (auto simp: net_500_def)
  from e ok ko show ?thesis by blast
qed

text \<open>
  C10 as stated fails on a blank submission: after a query that got no response, a
  submission of three spaces does not reset the error, which stays set.
\<close>

theorem blank_submission_keeps_error:
  "queryError blanks_after_failure = Some ''Failed to get a response from the agent.'' \<and>
   queryError
     (snd (handleQuerySubmit sample_grammar api_url net_down ''7''
            (world0, blanks_after_failure))) =
     Some ''Failed to get a response from the agent.''"
  by (simp add: blanks_after_failure_def handleQuerySubmit_def page_of_def initial_page_def
        rag_agent_def trim_def isWhiteSpace_def queryAgent_def response_data_def
        api_request_def axios_dispatch_def request_interceptor_def response_rejected_def
        mergeHeaders_def net_down_def world0_def Let_def)

section \<open>Uploading a document\<close>


text \<open>
  C7. With no file selected, the upload button is disabled, and the upload handler
  returns at once: it issues no request and changes nothing.
\<close>

theorem no_file_no_upload:
  assumes "file s = None"
  shows "upload_disabled s \<and> handleFileUpload API_URL net agentId (w, s) = (w, s)"
  using assms by (simp add: upload_disabled_def handleFileUpload_def)

theorem no_file_no_upload_witness:
  "upload_disabled (page_of rag_agent []) \<and>
   handleFileUpload api_url net_ok ''7'' (world0, page_of rag_agent []) =
     (world0, page_of rag_agent [])"
proof -
  have "file (page_of rag_agent []) = None"
    by (simp add: page_of_def initial_page_def)
  from no_file_no_upload [OF this] show ?thesis by simp
qed





section \<open>Deleting an agent from the list\<close>

text \<open>
  C6. When the user does not confirm, the handler issues no request and changes nothing.
  When the user confirms, it issues exactly one request, a DELETE of
  \<^verbatim>\<open>/agents/<id>\<close>, and no request that reloads the list: when that succeeds, the
  list loses exactly its entries with that id and nothing else of the state changes;
  when it fails, the error message is set and the list is as it was.
\<close>

theorem delete_agent_from_list:
  assumes "AgentsPage_deleteAgent API_URL net confirmed agentId (w, s) = (w', s')"
  shows "if \<not> confirmed then w' = w \<and> s' = s
         else \<exists>req. sent w' = sent w @ [req] \<and> method req = DELETE \<and>
                url req = ''/agents/'' @ agentId \<and>
                (if succeeded (net req)
                 then s' = s\<lparr>agents := filter (\<lambda>a. id a \<noteq> agentId) (agents s)\<rparr>
                 else s' = s\<lparr>AgentsPage.error :=
                               Some ''Failed to delete agent. Please try again.''\<rparr>)"
proof (cases confirmed)
  case False
  with assms show ?thesis by (simp add: AgentsPage_deleteAgent_def)
next
  case True
  let ?req = "api_config API_URL w DELETE (''/agents/'' @ agentId) NoData []"
  obtain r w1 where d: "deleteAgent API_URL net w agentId = (r, w1)" by force
  note st = deleteAgent_settled [OF d]
  from assms True d have h:
    "(w', s') = (case r of
        Inr ok \<Rightarrow> (w1, s\<lparr>agents := filter (\<lambda>a. id a \<noteq> agentId) (agents s)\<rparr>)
      | Inl err \<Rightarrow>
          (w1, s\<lparr>AgentsPage.error := Some ''Failed to delete agent. Please try again.''\<rparr>))"
    by (simp add: AgentsPage_deleteAgent_def split: sum.splits)
  have "sent w' = sent w @ [?req]"
    using st h by (cases r) auto
  moreover have "if succeeded (net ?req)
                 then s' = s\<lparr>agents := filter (\<lambda>a. id a \<noteq> agentId) (agents s)\<rparr>
                 else s' = s\<lparr>AgentsPage.error :=
                               Some ''Failed to delete agent. Please try again.''\<rparr>"
  proof (cases "net ?req")
    case (Response code body)
    with st h show ?thesis by (cases r) (auto split: if_splits)
  next
    case NoResponse
    with st h show ?thesis by (cases r) auto
  qed
  ultimately show ?thesis using True by auto
qed

theorem delete_agent_from_list_witness:
  "AgentsPage_deleteAgent api_url net_204 False ''42'' (world0, agent_list) =
     (world0, agent_list) \<and>
   snd (AgentsPage_deleteAgent api_url net_204 True ''42'' (world0, agent_list)) =
     agent_list\<lparr>agents := [rag_agent, search_agent]\<rparr> \<and>
   snd (AgentsPage_deleteAgent api_url net_500 True ''42'' (world0, agent_list)) =
     agent_list\<lparr>AgentsPage.error := Some ''Failed to delete agent. Please try again.''\<rparr>"
proof -
  have f: "filter (\<lambda>a. id a \<noteq> ''42'') (agents agent_list) = [rag_agent, search_agent]"
    by (simp add: agent_list_def rag_agent_def ml_agent_def search_agent_def)
  from delete_agent_from_list [of api_url net_204 False "''42''" world0 agent_list
         "fst (AgentsPage_deleteAgent api_url net_204 False ''42'' (world0, agent_list))"
         "snd (AgentsPage_deleteAgent api_url net_204 False ''42'' (world0, agent_list))"]
  have 1: "AgentsPage_deleteAgent api_url net_204 False ''42'' (world0, agent_list) =
             (world0, agent_list)"
    by (simp add: prod_eq_iff)
  from delete_agent_from_list [of api_url net_204 True "''42''" world0 agent_list
         "fst (AgentsPage_deleteAgent api_url net_204 True ''42'' (world0, agent_list))"
         "snd (AgentsPage_deleteAgent api_url net_204 True ''42'' (world0, agent_list))"]
  have 2: "snd (AgentsPage_deleteAgent api_url net_204 True ''42'' (world0, agent_list)) =
     agent_list\<lparr>agents := [rag_agent, search_agent]\<rparr>"
    by (auto simp: net_204_def f)
  from delete_agent_from_list [of api_url net_500 True "''42''" world0 agent_list
         "fst (AgentsPage_deleteAgent api_url net_500 True ''42'' (world0, agent_list))"
         "snd (AgentsPage_deleteAgent api_url net_500 True ''42'' (world0, agent_list))"]
  have 3: "snd (AgentsPage_deleteAgent api_url net_500 True ''42'' (world0, agent_list)) =
     agent_list\<lparr>AgentsPage.error := Some ''Failed to delete agent. Please try again.''\<rparr>"
    by (auto simp: net_500_def)
  from 1 2 3 show ?thesis by blast
qed

section \<open>Rendering the result of a query to a RAG agent\<close>

lemma source_item_error:
  "\<not> string_content doc \<Longrightarrow> source_item doc = Inl TypeError"
  by (cases doc) (auto simp: source_item_def string_content_def split: option.splits jsval.splits)

lemma source_item_TypeError:
  "source_item doc = Inl err \<Longrightarrow> err = TypeError"
  by (cases doc) (auto simp: source_item_def split: option.splits jsval.splits)

lemma map_items_source_item_error:
  "doc \<in> set docs \<Longrightarrow> \<not> string_content doc \<Longrightarrow> map_items source_item docs = Inl TypeError"
proof (induction docs)
  case Nil
  then show ?case by simp
next
  case (Cons d ds)
  show ?case
  proof (cases "source_item d")
    case (Inl err)
    with source_item_TypeError [OF Inl] show ?thesis by simp
  next
    case (Inr shown)
    with Cons.prems have "string_content d"
      using source_item_error [of d] by auto
    with Cons.prems have "doc \<in> set ds" by auto
    from Cons.IH [OF this Cons.prems(2)] Inr show ?thesis by simp
  qed
qed

lemma get_prop_truthy:
  "get_prop v k = Inr x \<Longrightarrow> truthy x \<Longrightarrow> truthy v"
  by (cases v) auto

text \<open>
  C9. Rendering the result of a query to a \<^verbatim>\<open>rag\<close> agent is not total in the shape
  of the response. When the result has a truthy \<^verbatim>\<open>answer\<close> and
  \<^verbatim>\<open>source_documents\<close> is an array with an element whose \<^verbatim>\<open>content\<close> is not a
  string, the page function throws a \<^verbatim>\<open>TypeError\<close>. The fields at the top are
  guarded: with a falsy \<^verbatim>\<open>answer\<close> nothing of the block is shown, and with a truthy
  \<^verbatim>\<open>answer\<close> and a falsy \<^verbatim>\<open>source_documents\<close> the answer is shown without
  sources; neither throws.
\<close>

theorem rag_source_without_content_throws:
  assumes "type a = ''rag''" and "get_prop result ''answer'' = Inr answer"
    and "get_prop result ''source_documents'' = Inr docs"
  shows "(truthy answer \<and> (\<exists>items doc. docs = JArr items \<and> doc \<in> set items \<and>
                             \<not> string_content doc) \<longrightarrow>
            render_rag_response coerce a result = Inl TypeError) \<and>
         (truthy result \<and> \<not> truthy answer \<longrightarrow>
            render_rag_response coerce a result = Inr (Skipped answer)) \<and>
         (truthy answer \<and> \<not> truthy docs \<longrightarrow>
            render_rag_response coerce a result =
              Inr (Shown (RagAnswer answer (Skipped docs))))"
proof (intro conjI impI)
  assume h: "truthy answer \<and> (\<exists>items doc. docs = JArr items \<and> doc \<in> set items \<and>
                             \<not> string_content doc)"
  then obtain items doc where
    d: "docs = JArr items" and m: "doc \<in> set items" and n: "\<not> string_content doc"
    by blast
  from m have "items \<noteq> []" by auto
  with map_items_source_item_error [OF m n]
  have "render_sources coerce (JArr items) = Inl TypeError"
    by (simp add: render_sources_def)
  with assms(2,3) h d have "render_rag coerce result = Inl TypeError"
    by (simp add: render_rag_def)
  with assms(1) get_prop_truthy [OF assms(2)] h
  show "render_rag_response coerce a result = Inl TypeError"
    by (simp add: render_rag_response_def)
next
  assume "truthy result \<and> \<not> truthy answer"
  with assms show "render_rag_response coerce a result = Inr (Skipped answer)"
    by (simp add: render_rag_response_def render_rag_def)
next
  assume h: "truthy answer \<and> \<not> truthy docs"
  with assms get_prop_truthy [OF assms(2)]
  show "render_rag_response coerce a result = Inr (Shown (RagAnswer answer (Skipped docs)))"
    by (simp add: render_rag_response_def render_rag_def render_sources_def)
qed

text \<open>A second source with \<^verbatim>\<open>page_content\<close> in place of \<^verbatim>\<open>content\<close>; a result
  with an empty answer; a result with an answer and no sources.\<close>

theorem rag_source_without_content_throws_witness:
  "render_rag_response no_coercion rag_agent rag_result = Inl TypeError \<and>
   render_rag_response no_coercion rag_agent (JObj [(''answer'', JStr [])]) =
     Inr (Skipped (JStr [])) \<and>
   render_rag_response no_coercion rag_agent (JObj [(''answer'', JStr ''It is an agent.'')]) =
     Inr (Shown (RagAnswer (JStr ''It is an agent.'') (Skipped JUndefined)))"
proof -
  have t: "type rag_agent = ''rag''" by (simp add: rag_agent_def)
  have a: "get_prop rag_result ''answer'' = Inr (JStr ''Agents answer queries.'')"
    by (simp add: rag_result_def)
  have d: "get_prop rag_result ''source_documents'' =
             Inr (JArr [JObj [(''content'', JStr ''The platform hosts agents.'')],
                        JObj [(''page_content'', JStr ''Agents answer queries.'')]])"
    by (simp add: rag_result_def)
  have n: "\<not> string_content (JObj [(''page_content'', JStr ''Agents answer queries.'')])"
    by (simp add: string_content_def)
  from rag_source_without_content_throws [OF t a d, of no_coercion] n
  have 1: "render_rag_response no_coercion rag_agent rag_result = Inl TypeError"
    by auto
  have "get_prop (JObj [(''answer'', JStr [])]) ''answer'' = Inr (JStr [])"
    and "get_prop (JObj [(''answer'', JStr [])]) ''source_documents'' = Inr JUndefined"
    by simp_all
  from rag_source_without_content_throws [OF t this, of no_coercion]
  have 2: "render_rag_response no_coercion rag_agent (JObj [(''answer'', JStr [])]) =
             Inr (Skipped (JStr []))"
    by simp
  have "get_prop (JObj [(''answer'', JStr ''It is an agent.'')]) ''answer'' =
          Inr (JStr ''It is an agent.'')"
    and "get_prop (JObj [(''answer'', JStr ''It is an agent.'')]) ''source_documents'' =
           Inr JUndefined"
    by simp_all
  from rag_source_without_content_throws [OF t this, of no_coercion]
  have 3: "render_rag_response no_coercion rag_agent
             (JObj [(''answer'', JStr ''It is an agent.'')]) =
           Inr (Shown (RagAnswer (JStr ''It is an agent.'') (Skipped JUndefined)))"
    by simp
  from 1 2 3 show ?thesis by blast
qed


end
